theory Spec2Isabelle
  imports Main "HOL-Library.Sublist" "HOL-Library.Word"
begin

unbundle bit_operations_syntax

section \<open>Python strings and string formatting\<close>

text \<open>
  A Python \<open>str\<close> is a sequence of Unicode code points, and \<open>ord\<close> reads one as an
  unbounded integer. The commands of \<open>cogs/meta.py\<close> print characters beyond ASCII
  (the EM DASH of \<open>charinfo\<close>, the characters a user passes in), so a string is modelled
  as the list of its code points. \<open>ascii\<close> embeds an ASCII literal.
\<close>

type_synonym pystr = "nat list"

definition ascii :: "string \<Rightarrow> pystr" where
  "ascii s = map of_char s"

text \<open>\<open>sep.join(xs)\<close>\<close>

fun join :: "pystr \<Rightarrow> pystr list \<Rightarrow> pystr" where
  "join sep [] = []"
| "join sep [x] = x"
| "join sep (x # y # ys) = x @ sep @ join sep (y # ys)"

text \<open>\<open>str(n)\<close> and \<open>f"{n}"\<close> for a non-negative integer: decimal digits.\<close>

fun dec_str :: "nat \<Rightarrow> pystr" where
  "dec_str n = (if n < 10 then [48 + n] else dec_str (n div 10) @ [48 + n mod 10])"

declare dec_str.simps [simp del]

text \<open>\<open>f"{n:x}"\<close>: lower-case hexadecimal digits.\<close>

definition hex_digit :: "nat \<Rightarrow> nat" where
  "hex_digit d = (if d < 10 then 48 + d else 87 + d)"

fun hex_str :: "nat \<Rightarrow> pystr" where
  "hex_str n = (if n < 16 then [hex_digit n] else hex_str (n div 16) @ [hex_digit (n mod 16)])"

declare hex_str.simps [simp del]

text \<open>\<open>f"{s:>08}"\<close> on a string: right-aligned in a field of the given width, filled with
  the fill character; a string at least as long as the field is unchanged.\<close>

definition rjust :: "nat \<Rightarrow> nat \<Rightarrow> pystr \<Rightarrow> pystr" where
  "rjust width fill s = replicate (width - length s) fill @ s"

text \<open>\<open>s.startswith((a, b))\<close>: true when \<open>s\<close> begins with one of the alternatives.\<close>

definition startswith :: "pystr \<Rightarrow> pystr list \<Rightarrow> bool" where
  "startswith s alts = list_ex (\<lambda>a. prefix a s) alts"

section \<open>Exceptions, messages and the outcome of a command\<close>

datatype exn =
    BadArgument pystr
  | TooManyArguments
  | IndexError
  | ValueError
  | NotFound
  | HTTPException
  | Exception pystr
  | BadUnionArgument "exn list"

datatype colour = Blurple

record embed =
  title :: pystr
  embed_colour :: "colour option"
  footer :: pystr
  description :: pystr

datatype message = Content pystr | Embed embed

text \<open>
  The prefix store lives behind the bot object. Every call a command makes on it is
  logged, so that "the setter was not called" is a statement about the log.
\<close>

datatype store_call = GetGuildPrefixes nat | GetRawGuildPrefixes nat | SetGuildPrefixes nat "pystr list"

text \<open>
  What one command invocation did: the exception that left it (if any), the messages it
  sent with \<open>ctx.send\<close> in order, the calls it made on the prefix store, and the store
  afterwards.
\<close>

record 's outcome =
  raised :: "exn option"
  replies :: "message list"
  calls :: "store_call list"
  store :: 's

text \<open>
  The collaborators of the module that are not part of it: the bot's own user id, the
  three prefix accessors of the bot and \<open>ctx.tick\<close>. A setter that raises returns the text
  of its exception beside the store it leaves behind.
\<close>

record 's bot =
  user_id :: nat
  get_guild_prefixes :: "'s \<Rightarrow> nat \<Rightarrow> pystr list"
  get_raw_guild_prefixes :: "'s \<Rightarrow> nat \<Rightarrow> pystr list"
  set_guild_prefixes :: "'s \<Rightarrow> nat \<Rightarrow> pystr list \<Rightarrow> 's \<times> pystr option"
  tick :: "bool \<Rightarrow> pystr"

section \<open>Converters and the cog's error handler\<close>

text \<open>\<open>Prefix.convert\<close>\<close>

definition Prefix_convert :: "nat \<Rightarrow> pystr \<Rightarrow> exn + pystr" where
  "Prefix_convert uid argument =
     (if startswith argument
           [ascii ''<@'' @ dec_str uid @ ascii ''>'', ascii ''<@!'' @ dec_str uid @ ascii ''>'']
      then Inl (BadArgument (ascii ''That is a reserved prefix already in use.''))
      else Inr argument)"

text \<open>\<open>Meta.cog_command_error\<close>: \<open>ctx.send(error)\<close> sends \<open>str(error)\<close>.\<close>

definition cog_command_error :: "exn \<Rightarrow> message list" where
  "cog_command_error error = (case error of BadArgument m \<Rightarrow> [Content m] | _ \<Rightarrow> [])"

text \<open>\<open>Meta.prefix_add_error\<close>\<close>

definition prefix_add_error :: "exn \<Rightarrow> message list" where
  "prefix_add_error error =
     (case error of
        TooManyArguments \<Rightarrow>
          [Content (ascii ''You've given too many prefixes. Either quote it or only do it one by one.'')]
      | _ \<Rightarrow> [])"

text \<open>
  \<open>FetchedUser.convert\<close>. \<open>str.isdigit\<close> holds of a non-empty string all of whose
  characters have the Unicode digit property; the property is a table of the Python
  runtime and is a parameter here. \<open>fetch_user\<close> is the platform client's call: it
  returns the user or raises; \<open>NotFound\<close> is the not-found subclass of the client's
  \<open>HTTPException\<close>, caught first, and \<open>HTTPException\<close> stands for every other one.
\<close>

definition isdigit :: "(nat \<Rightarrow> bool) \<Rightarrow> pystr \<Rightarrow> bool" where
  "isdigit digit_property s = (s \<noteq> [] \<and> list_all digit_property s)"

definition FetchedUser_convert ::
  "(nat \<Rightarrow> bool) \<Rightarrow> (pystr \<Rightarrow> exn + 'u) \<Rightarrow> pystr \<Rightarrow> exn + 'u" where
  "FetchedUser_convert digit_property fetch_user argument =
     (if \<not> isdigit digit_property argument
      then Inl (BadArgument (ascii ''Not a valid user ID.''))
      else case fetch_user argument of
             Inr u \<Rightarrow> Inr u
           | Inl e \<Rightarrow>
               if e = NotFound then Inl (BadArgument (ascii ''User not found.''))
               else if e = HTTPException
                 then Inl (BadArgument (ascii ''An error occurred while fetching the user.''))
               else Inl e)"

section \<open>charinfo\<close>

text \<open>
  \<open>to_string\<close>, the local function of \<open>Meta.charinfo\<close>. \<open>unicodedata.name\<close> is the
  Unicode character database of the runtime: a parameter, \<open>None\<close> where the database has
  no name and the default \<open>"Name not found."\<close> is used. The characters \<open>0x60\<close> and
  \<open>0x5C\<close> are the backtick and the backslash, \<open>0x2014\<close> is EM DASH.
\<close>

definition to_string :: "(nat \<Rightarrow> pystr option) \<Rightarrow> nat \<Rightarrow> pystr" where
  "to_string unicodedata_name c =
     (let digit = hex_str c;
          name = (case unicodedata_name c of Some n \<Rightarrow> n | None \<Rightarrow> ascii ''Name not found.'')
      in [0x60, 0x5C] @ ascii ''U'' @ rjust 8 48 digit @ [0x60] @ ascii '': '' @ name
         @ ascii '' - '' @ [c] @ ascii '' '' @ [0x2014]
         @ ascii '' <http://www.fileformat.info/info/unicode/char/'' @ digit @ ascii ''>'')"

text \<open>\<open>Meta.charinfo\<close>: the messages it sends.\<close>

definition charinfo :: "(nat \<Rightarrow> pystr option) \<Rightarrow> pystr \<Rightarrow> message list" where
  "charinfo unicodedata_name characters =
     (let msg = join [0x0A] (map (to_string unicodedata_name) characters)
      in [Content msg])"

section \<open>Prefix management\<close>

text \<open>\<open>del xs[i]\<close> for a non-negative index: IndexError when out of range.\<close>

definition del_index :: "'a list \<Rightarrow> nat \<Rightarrow> exn + 'a list" where
  "del_index xs i = (if i < length xs then Inr (take i xs @ drop (Suc i) xs) else Inl IndexError)"

text \<open>\<open>xs.remove(x)\<close>: removes the first occurrence, ValueError when there is none.\<close>

definition list_remove :: "'a list \<Rightarrow> 'a \<Rightarrow> exn + 'a list" where
  "list_remove xs x = (if x \<in> set xs then Inr (remove1 x xs) else Inl ValueError)"

text \<open>\<open>Meta.prefix\<close>, the bare \<open>prefix\<close> command.\<close>

definition prefix_cmd :: "'s bot \<Rightarrow> 's \<Rightarrow> nat \<Rightarrow> 's outcome" where
  "prefix_cmd this st guild =
     (case del_index (get_guild_prefixes this st guild) 1 of
        Inl err \<Rightarrow>
          \<lparr>raised = Some err, replies = [], calls = [GetGuildPrefixes guild], store = st\<rparr>
      | Inr shown \<Rightarrow>
          let e = \<lparr>title = ascii ''Prefixes'', embed_colour = Some Blurple,
                   footer = dec_str (length shown) @ ascii '' prefixes'',
                   description =
                     join [0x0A]
                       (map (\<lambda>(index, elem). dec_str index @ ascii ''. '' @ elem)
                            (enumerate 1 shown))\<rparr>
          in \<lparr>raised = None, replies = [Embed e], calls = [GetGuildPrefixes guild], store = st\<rparr>)"

text \<open>
  The tail that \<open>prefix_add\<close> and \<open>prefix_remove\<close> share: the setter inside
  \<open>try\<close>/\<open>except Exception\<close>/\<open>else\<close>.
\<close>

definition set_and_report :: "'s bot \<Rightarrow> 's \<Rightarrow> nat \<Rightarrow> pystr list \<Rightarrow> 's outcome" where
  "set_and_report this st guild current_prefixes =
     (case set_guild_prefixes this st guild current_prefixes of
        (st', Some e) \<Rightarrow>
          \<lparr>raised = None, replies = [Content (tick this False @ ascii '' '' @ e)],
           calls = [GetRawGuildPrefixes guild, SetGuildPrefixes guild current_prefixes],
           store = st'\<rparr>
      | (st', None) \<Rightarrow>
          \<lparr>raised = None, replies = [Content (tick this True)],
           calls = [GetRawGuildPrefixes guild, SetGuildPrefixes guild current_prefixes],
           store = st'\<rparr>)"

text \<open>
  \<open>Meta.prefix_add\<close>, called with the converted argument. The list the getter returns
  is a value here: \<open>append\<close> builds the list that goes to the setter, and whether the
  bot's own copy shares it is the bot's business, outside this module.
\<close>

definition prefix_add :: "'s bot \<Rightarrow> 's \<Rightarrow> nat \<Rightarrow> pystr \<Rightarrow> 's outcome" where
  "prefix_add this st guild p =
     (let current_prefixes = get_raw_guild_prefixes this st guild @ [p]
      in set_and_report this st guild current_prefixes)"

text \<open>\<open>Meta.prefix_remove\<close>, called with the converted argument.\<close>

definition prefix_remove :: "'s bot \<Rightarrow> 's \<Rightarrow> nat \<Rightarrow> pystr \<Rightarrow> 's outcome" where
  "prefix_remove this st guild p =
     (case list_remove (get_raw_guild_prefixes this st guild) p of
        Inl err \<Rightarrow>
          if err = ValueError
          then \<lparr>raised = None,
                replies = [Content (ascii ''I do not have this prefix registered.'')],
                calls = [GetRawGuildPrefixes guild], store = st\<rparr>
          else \<lparr>raised = Some err, replies = [], calls = [GetRawGuildPrefixes guild], store = st\<rparr>
      | Inr current_prefixes \<Rightarrow> set_and_report this st guild current_prefixes)"

text \<open>\<open>Meta.prefix_clear\<close>: the setter is called outside any \<open>try\<close>.\<close>

definition prefix_clear :: "'s bot \<Rightarrow> 's \<Rightarrow> nat \<Rightarrow> 's outcome" where
  "prefix_clear this st guild =
     (case set_guild_prefixes this st guild [] of
        (st', Some e) \<Rightarrow>
          \<lparr>raised = Some (Exception e), replies = [],
           calls = [SetGuildPrefixes guild []], store = st'\<rparr>
      | (st', None) \<Rightarrow>
          \<lparr>raised = None, replies = [Content (tick this True)],
           calls = [SetGuildPrefixes guild []], store = st'\<rparr>)"

text \<open>
  A command whose parameter is annotated \<open>prefix: Prefix\<close> runs the converter on the
  raw argument first; the callback runs only when the converter returns. An exception of
  the converter goes to the command's own error handler (\<open>prefix_add\<close> has one,
  \<open>prefix_remove\<close> has none) and then to \<open>cog_command_error\<close>. The permission check
  \<open>checks.is_mod\<close> belongs to another module and is taken to have passed.
\<close>

definition invoke_prefix_add :: "'s bot \<Rightarrow> 's \<Rightarrow> nat \<Rightarrow> pystr \<Rightarrow> 's outcome" where
  "invoke_prefix_add this st guild argument =
     (case Prefix_convert (user_id this) argument of
        Inl err \<Rightarrow>
          \<lparr>raised = Some err, replies = prefix_add_error err @ cog_command_error err,
           calls = [], store = st\<rparr>
      | Inr p \<Rightarrow> prefix_add this st guild p)"

definition invoke_prefix_remove :: "'s bot \<Rightarrow> 's \<Rightarrow> nat \<Rightarrow> pystr \<Rightarrow> 's outcome" where
  "invoke_prefix_remove this st guild argument =
     (case Prefix_convert (user_id this) argument of
        Inl err \<Rightarrow>
          \<lparr>raised = Some err, replies = cog_command_error err, calls = [], store = st\<rparr>
      | Inr p \<Rightarrow> prefix_remove this st guild p)"

section \<open>serverinfo: which channels are secret\<close>

text \<open>
  Python integers are unbounded, and \<open>~deny\<close> is negative: the bitmasks are \<open>int\<close>.
  A channel is what the loop reads of it: its class and the allow/deny pair of its
  overwrite for the everyone role. The flag masks of \<open>read_messages\<close>, \<open>connect\<close> and
  \<open>speak\<close> belong to the client library and are parameters; a flag is set in a
  permission value when \<open>value & flag == flag\<close>.
\<close>

datatype channel_class = TextChannel | VoiceChannel | CategoryChannel

record channel =
  channel_type :: channel_class
  overwrite_allow :: int
  overwrite_deny :: int

record permission_flags =
  read_messages :: int
  connect :: int
  speak :: int

definition has_flag :: "int \<Rightarrow> int \<Rightarrow> bool" where
  "has_flag v flag = (v AND flag = flag)"

definition channel_perms :: "int \<Rightarrow> channel \<Rightarrow> int" where
  "channel_perms everyone_perms ch =
     (let allow = overwrite_allow ch; deny = overwrite_deny ch
      in (everyone_perms AND NOT deny) OR allow)"

text \<open>The loop body: \<open>totals\<close> and \<open>secret\<close> are Counters, zero where no key is.\<close>

definition count_channel ::
  "permission_flags \<Rightarrow> int \<Rightarrow> channel \<Rightarrow>
   (channel_class \<Rightarrow> nat) \<times> (channel_class \<Rightarrow> nat) \<Rightarrow> (channel_class \<Rightarrow> nat) \<times> (channel_class \<Rightarrow> nat)" where
  "count_channel flags everyone_perms ch counters =
     (let (secret, totals) = counters;
          perms = channel_perms everyone_perms ch;
          ty = channel_type ch;
          totals = totals(ty := totals ty + 1)
      in if \<not> has_flag perms (read_messages flags) then (secret(ty := secret ty + 1), totals)
         else if ty = VoiceChannel \<and> (\<not> has_flag perms (connect flags) \<or> \<not> has_flag perms (speak flags))
           then (secret(ty := secret ty + 1), totals)
         else (secret, totals))"

definition count_channels ::
  "permission_flags \<Rightarrow> int \<Rightarrow> channel list \<Rightarrow> (channel_class \<Rightarrow> nat) \<times> (channel_class \<Rightarrow> nat)" where
  "count_channels flags everyone_perms channels =
     foldl (\<lambda>counters ch. count_channel flags everyone_perms ch counters)
           (\<lambda>_. 0, \<lambda>_. 0) channels"

section \<open>The user-info path\<close>

text \<open>
  \<open>info\<close> declares its parameter as \<open>user: Union[discord.Member, FetchedUser]\<close>. For a
  \<open>Union\<close> annotation the command framework tries the alternatives in order on the raw
  argument and takes the first that returns; the exception of an alternative that fails
  is collected, and when every alternative has failed the framework raises
  \<open>BadUnionArgument\<close> with the collected exceptions. \<open>BadUnionArgument\<close> is a user-input
  error of the framework but not a \<open>BadArgument\<close>.
\<close>

fun union_convert :: "(pystr \<Rightarrow> exn + 'u) list \<Rightarrow> exn list \<Rightarrow> pystr \<Rightarrow> exn + 'u" where
  "union_convert [] errors argument = Inl (BadUnionArgument errors)"
| "union_convert (converter # converters) errors argument =
     (case converter argument of
        Inr v \<Rightarrow> Inr v
      | Inl exc \<Rightarrow> union_convert converters (errors @ [exc]) argument)"

text \<open>
  Invoking \<open>info\<close> with an argument. The member converter is the client library's and
  is a parameter: it returns the member the argument names or raises. The callback is
  the only place that sends the embed and runs on the converted user; it is a parameter
  too, since what it sends once it has a user plays no part here. An exception of the
  conversion is handed to \<open>cog_command_error\<close> (\<open>info\<close> has no error handler of its
  own) and the callback does not run.
\<close>

definition invoke_info ::
  "(pystr \<Rightarrow> exn + 'u) \<Rightarrow> (nat \<Rightarrow> bool) \<Rightarrow> (pystr \<Rightarrow> exn + 'u) \<Rightarrow> ('u \<Rightarrow> message list)
   \<Rightarrow> pystr \<Rightarrow> exn option \<times> message list" where
  "invoke_info member_convert digit_property fetch_user info argument =
     (case union_convert [member_convert, FetchedUser_convert digit_property fetch_user] []
             argument of
        Inl err \<Rightarrow> (Some err, cog_command_error err)
      | Inr user \<Rightarrow> (None, info user))"

section \<open>Concrete collaborators for evaluating the commands\<close>

text \<open>
  A bot whose prefix store is one list of strings: the getters return it, the setter
  replaces it. \<open>failing_bot\<close> is the same bot with a setter that always raises.
\<close>

definition list_get :: "pystr list \<Rightarrow> nat \<Rightarrow> pystr list" where
  "list_get st guild = st"

definition list_set :: "pystr list \<Rightarrow> nat \<Rightarrow> pystr list \<Rightarrow> pystr list \<times> pystr option" where
  "list_set st guild new_prefixes = (new_prefixes, None)"

definition list_set_raises :: "pystr list \<Rightarrow> nat \<Rightarrow> pystr list \<Rightarrow> pystr list \<times> pystr option" where
  "list_set_raises st guild new_prefixes = (st, Some (ascii ''store unavailable''))"

definition tick_text :: "bool \<Rightarrow> pystr" where
  "tick_text opt = (if opt then ascii ''[yes]'' else ascii ''[no]'')"

definition list_bot :: "pystr list bot" where
  "list_bot =
     \<lparr>user_id = 42, get_guild_prefixes = list_get, get_raw_guild_prefixes = list_get,
      set_guild_prefixes = list_set, tick = tick_text\<rparr>"

definition failing_bot :: "pystr list bot" where
  "failing_bot = list_bot\<lparr>set_guild_prefixes := list_set_raises\<rparr>"

text \<open>The one entry of the Unicode name table that the examples need.\<close>

definition name_of_A :: "nat \<Rightarrow> pystr option" where
  "name_of_A c = (if c = 65 then Some (ascii ''LATIN CAPITAL LETTER A'') else None)"

text \<open>The line \<open>charinfo\<close> prints for the character A.\<close>

definition line_A :: pystr where
  "line_A =
     [0x60, 0x5C] @ ascii ''U00000041'' @ [0x60] @ ascii '': LATIN CAPITAL LETTER A - A ''
     @ [0x2014] @ ascii '' <http://www.fileformat.info/info/unicode/char/41>''"

text \<open>The stored prefixes of the specification's display example.\<close>

definition example_prefixes :: "pystr list" where
  "example_prefixes = [ascii ''!'', ascii ''<mention>'', ascii ''<mention2>'', ascii ''?'']"

text \<open>An input of 26 characters, one more than the help text of \<open>charinfo\<close> allows.\<close>

definition long_input :: pystr where
  "long_input = ascii ''AAAAAAAAAAAAAAAAAAAAAAAAAA''"

text \<open>
  A platform client that knows no user, a guild in which no argument names a member
  (the text of its error stands for the library's), the digit property restricted to the
  ASCII digits, and an \<open>info\<close> callback (never reached in the example) that sends
  nothing.
\<close>

definition ascii_digit :: "nat \<Rightarrow> bool" where
  "ascii_digit c = (48 \<le> c \<and> c \<le> 57)"

definition fetch_nobody :: "pystr \<Rightarrow> exn + unit" where
  "fetch_nobody uid = Inl NotFound"

definition no_member :: "pystr \<Rightarrow> exn + unit" where
  "no_member argument =
     Inl (BadArgument (ascii ''Member '' @ [0x22] @ argument @ [0x22] @ ascii '' not found''))"

definition no_embed :: "unit \<Rightarrow> message list" where
  "no_embed user = []"

text \<open>A text channel whose overwrite both allows and denies bit 10.\<close>

definition both_set_channel :: channel where
  "both_set_channel = \<lparr>channel_type = TextChannel, overwrite_allow = 1024, overwrite_deny = 1024\<rparr>"

section \<open>Evaluation lemmas\<close>

lemmas fixture_defs =
  ascii_def list_bot_def failing_bot_def list_get_def list_set_def list_set_raises_def
  tick_text_def example_prefixes_def Let_def

lemma dec_str_42: "dec_str 42 = [52, 50]"
  by (simp add: dec_str.simps)

lemma hex_str_65: "hex_str 65 = [52, 49]"
  by (simp add: hex_str.simps hex_digit_def)

lemma rjust_41: "rjust 8 48 [52, 49] = [48, 48, 48, 48, 48, 48, 52, 49]"
  by code_simp

lemma charinfo_A_is_line_A:
  assumes "unicodedata_name 65 = Some (ascii ''LATIN CAPITAL LETTER A'')"
  shows "charinfo unicodedata_name (ascii ''A'') = [Content line_A]"
  using assms
  by (simp add: charinfo_def to_string_def line_A_def ascii_def hex_str_65 rjust_41)

lemma line_A_has_escape: "sublist (0x5C # ascii ''U00000041'') line_A"
  by code_simp

lemma line_A_has_name: "sublist (ascii ''LATIN CAPITAL LETTER A'') line_A"
  by code_simp

lemma line_A_lacks_U_plus: "\<not> sublist (ascii ''U+000041'') line_A"
  by code_simp

section \<open>Prefix add\<close>

text \<open>
  The tail shared by \<open>prefix_add\<close> and \<open>prefix_remove\<close> never lets an exception of the
  setter out: it answers with the success tick, or with the failure tick and the text of
  the exception.
\<close>

lemma set_and_report_catches:
  "raised (set_and_report this st guild xs) = None \<and>
   replies (set_and_report this st guild xs) =
     [Content (case snd (set_guild_prefixes this st guild xs) of
                 None \<Rightarrow> tick this True
               | Some e \<Rightarrow> tick this False @ ascii '' '' @ e)]"
  by (cases "set_guild_prefixes this st guild xs")
     (simp add: set_and_report_def split: option.splits)

text \<open>
  C1, as the specification states it, fails: with the stored list \<open>["!"]\<close> and the
  argument \<open>"!"\<close>, \<open>prefix add\<close> is not rejected. The list handed to the setter is
  \<open>["!", "!"]\<close>, not the stored list, and the reply is the success tick.
\<close>

theorem prefix_add_duplicate_counterexample:
  "ascii ''!'' \<in> set (get_raw_guild_prefixes list_bot [ascii ''!''] 7)
   \<and> invoke_prefix_add list_bot [ascii ''!''] 7 (ascii ''!'') =
       \<lparr>raised = None, replies = [Content (ascii ''[yes]'')],
        calls = [GetRawGuildPrefixes 7, SetGuildPrefixes 7 [ascii ''!'', ascii ''!'']],
        store = [ascii ''!'', ascii ''!'']\<rparr>
   \<and> prefix_add list_bot [ascii ''!''] 7 (ascii ''!'') =
       \<lparr>raised = None, replies = [Content (ascii ''[yes]'')],
        calls = [GetRawGuildPrefixes 7, SetGuildPrefixes 7 [ascii ''!'', ascii ''!'']],
        store = [ascii ''!'', ascii ''!'']\<rparr>"
  by (simp add: invoke_prefix_add_def Prefix_convert_def startswith_def prefix_add_def
      set_and_report_def fixture_defs dec_str_42)

text \<open>
  C1, amended: for every stored prefix list and every prefix already present in it,
  \<open>prefix add\<close> makes no duplicate check of its own. It hands the stored list with the
  prefix appended, a list with a duplicate entry, to the external setter, raises nothing,
  and replies with the success tick unless the setter raises, in which case it replies
  with the failure tick and the error text; the store is whatever the setter leaves.
\<close>

theorem prefix_add_existing_is_appended:
  assumes "p \<in> set (get_raw_guild_prefixes this st guild)"
  shows "calls (prefix_add this st guild p)
           = [GetRawGuildPrefixes guild,
              SetGuildPrefixes guild (get_raw_guild_prefixes this st guild @ [p])]
       \<and> \<not> distinct (get_raw_guild_prefixes this st guild @ [p])
       \<and> raised (prefix_add this st guild p) = None
       \<and> replies (prefix_add this st guild p)
           = [Content (case snd (set_guild_prefixes this st guild
                                   (get_raw_guild_prefixes this st guild @ [p])) of
                         None \<Rightarrow> tick this True
                       | Some e \<Rightarrow> tick this False @ ascii '' '' @ e)]
       \<and> store (prefix_add this st guild p)
           = fst (set_guild_prefixes this st guild (get_raw_guild_prefixes this st guild @ [p]))"
  using assms
  by (cases "set_guild_prefixes this st guild (get_raw_guild_prefixes this st guild @ [p])")
     (simp add: prefix_add_def set_and_report_def Let_def split: option.splits)

theorem prefix_add_existing_is_appended_witness:
  "ascii ''!'' \<in> set (get_raw_guild_prefixes list_bot [ascii ''!''] 7)
   \<and> calls (prefix_add list_bot [ascii ''!''] 7 (ascii ''!''))
       = [GetRawGuildPrefixes 7, SetGuildPrefixes 7 [ascii ''!'', ascii ''!'']]
   \<and> replies (prefix_add list_bot [ascii ''!''] 7 (ascii ''!'')) = [Content (ascii ''[yes]'')]"
  using prefix_add_existing_is_appended [of "ascii ''!''" list_bot "[ascii ''!'']" 7]
  by (simp add: fixture_defs)

section \<open>Failure of the setter\<close>

text \<open>
  C2 at the failing input: a setter that raises. \<open>prefix clear\<close> lets the exception out
  and sends nothing, while \<open>prefix add\<close> and \<open>prefix remove\<close> on the same bot catch it
  and reply with the failure tick and the error text.
\<close>

theorem prefix_clear_propagates_setter_failure:
  "prefix_clear failing_bot [ascii ''!''] 7 =
     \<lparr>raised = Some (Exception (ascii ''store unavailable'')), replies = [],
      calls = [SetGuildPrefixes 7 []], store = [ascii ''!'']\<rparr>
   \<and> prefix_add failing_bot [ascii ''!''] 7 (ascii ''?'') =
     \<lparr>raised = None, replies = [Content (ascii ''[no] store unavailable'')],
      calls = [GetRawGuildPrefixes 7, SetGuildPrefixes 7 [ascii ''!'', ascii ''?'']],
      store = [ascii ''!'']\<rparr>
   \<and> prefix_remove failing_bot [ascii ''!''] 7 (ascii ''!'') =
     \<lparr>raised = None, replies = [Content (ascii ''[no] store unavailable'')],
      calls = [GetRawGuildPrefixes 7, SetGuildPrefixes 7 []], store = [ascii ''!'']\<rparr>"
  by (simp add: prefix_clear_def prefix_add_def prefix_remove_def list_remove_def
      set_and_report_def fixture_defs)

section \<open>Effective permissions\<close>

text \<open>
  C3: for every base bitmask of the everyone role and every allow/deny pair of a
  channel's overwrite, each bit of the value \<open>serverinfo\<close> computes is set exactly when
  the bit is allowed, or is in the base and not denied; so a bit that is both allowed and
  denied is set.
\<close>

theorem channel_perms_bitwise:
  "bit (channel_perms everyone_perms ch) n
     = ((bit everyone_perms n \<and> \<not> bit (overwrite_deny ch) n) \<or> bit (overwrite_allow ch) n)
   \<and> (bit (overwrite_allow ch) n \<and> bit (overwrite_deny ch) n
        \<longrightarrow> bit (channel_perms everyone_perms ch) n)"
  by (simp add: channel_perms_def Let_def bit_and_iff bit_or_iff bit_not_iff)

theorem channel_perms_bitwise_witness:
  "bit (overwrite_allow both_set_channel) 10 \<and> bit (overwrite_deny both_set_channel) 10
   \<and> bit (channel_perms 0 both_set_channel) 10"
  using channel_perms_bitwise [of 0 both_set_channel 10]
  by (simp add: both_set_channel_def)

section \<open>charinfo\<close>

text \<open>
  C4, as the specification states it, fails: the line printed for \<open>A\<close> does not contain
  the text \<open>U+000041\<close>.
\<close>

theorem charinfo_A_codepoint_counterexample:
  "charinfo name_of_A (ascii ''A'') = [Content line_A] \<and> \<not> sublist (ascii ''U+000041'') line_A"
  using charinfo_A_is_line_A [of name_of_A] line_A_lacks_U_plus
  by (simp add: name_of_A_def)

text \<open>
  C4, amended: when the Unicode database names the character \<open>A\<close>
  LATIN CAPITAL LETTER A, \<open>charinfo "A"\<close> sends one line, which contains the codepoint
  written as a backslash followed by \<open>U00000041\<close> (eight hexadecimal digits, no plus
  sign) and the name LATIN CAPITAL LETTER A.
\<close>

theorem charinfo_letter_A:
  assumes "unicodedata_name 65 = Some (ascii ''LATIN CAPITAL LETTER A'')"
  shows "charinfo unicodedata_name (ascii ''A'') = [Content line_A]
       \<and> sublist (0x5C # ascii ''U00000041'') line_A
       \<and> sublist (ascii ''LATIN CAPITAL LETTER A'') line_A"
  using assms charinfo_A_is_line_A [of unicodedata_name] line_A_has_escape line_A_has_name
  by simp

theorem charinfo_letter_A_witness:
  "name_of_A 65 = Some (ascii ''LATIN CAPITAL LETTER A'')
   \<and> charinfo name_of_A (ascii ''A'') = [Content line_A]
   \<and> sublist (ascii ''LATIN CAPITAL LETTER A'') line_A"
  using charinfo_letter_A [of name_of_A]
  by (simp add: name_of_A_def)

section \<open>The bare prefix command\<close>

text \<open>
  Deleting index 1 and numbering what is left from 1: line \<open>k\<close> (counted from 0) carries
  the number \<open>k + 1\<close> and the stored entry at index 0 when \<open>k = 0\<close>, at index
  \<open>k + 1\<close> otherwise.
\<close>

lemma shown_lines:
  assumes "2 \<le> length xs"
  shows "map (\<lambda>(index, elem). f index elem) (enumerate 1 (take 1 xs @ drop 2 xs)) =
         map (\<lambda>k. f (Suc k) (xs ! (if k = 0 then 0 else Suc k))) [0..<length xs - 1]"
proof (rule nth_equalityI)
  show "length (map (\<lambda>(index, elem). f index elem) (enumerate 1 (take 1 xs @ drop 2 xs))) =
        length (map (\<lambda>k. f (Suc k) (xs ! (if k = 0 then 0 else Suc k))) [0..<length xs - 1])"
    using assms by simp
next
  fix i
  assume "i < length (map (\<lambda>(index, elem). f index elem) (enumerate 1 (take 1 xs @ drop 2 xs)))"
  then have i: "i < length xs - 1" using assms by simp
  then have "i < length (take 1 xs @ drop 2 xs)" using assms by simp
  then have "enumerate 1 (take 1 xs @ drop 2 xs) ! i = (1 + i, (take 1 xs @ drop 2 xs) ! i)"
    by (rule nth_enumerate_eq)
  moreover have "(take 1 xs @ drop 2 xs) ! i = xs ! (if i = 0 then 0 else Suc i)"
    using i assms by (cases i) (simp_all add: nth_append)
  ultimately show "map (\<lambda>(index, elem). f index elem) (enumerate 1 (take 1 xs @ drop 2 xs)) ! i =
        map (\<lambda>k. f (Suc k) (xs ! (if k = 0 then 0 else Suc k))) [0..<length xs - 1] ! i"
    using i assms by simp
qed

text \<open>
  C5, as the specification states it, fails on its own example: for the stored prefixes
  \<open>["!", "<mention>", "<mention2>", "?"]\<close> the command lists three entries,
  \<open>1. !\<close>, \<open>2. <mention2>\<close> and \<open>3. ?\<close>, not only \<open>1. !\<close> and \<open>2. ?\<close>.
\<close>

theorem prefix_display_example_counterexample:
  "replies (prefix_cmd list_bot example_prefixes 7) =
     [Embed \<lparr>title = ascii ''Prefixes'', embed_colour = Some Blurple,
             footer = ascii ''3 prefixes'',
             description = ascii ''1. !'' @ [0x0A] @ ascii ''2. <mention2>'' @ [0x0A] @ ascii ''3. ?''\<rparr>]
   \<and> ascii ''1. !'' @ [0x0A] @ ascii ''2. <mention2>'' @ [0x0A] @ ascii ''3. ?''
       \<noteq> ascii ''1. !'' @ [0x0A] @ ascii ''2. ?''"
  by (simp add: prefix_cmd_def del_index_def enumerate_eq_zip dec_str.simps fixture_defs
      eval_nat_numeral)

text \<open>
  C5, amended: for every list of length at least 2 that \<open>get_guild_prefixes\<close> returns,
  the bare \<open>prefix\<close> command sends one embed whose description lists all entries except
  exactly the one at index 1, numbered consecutively from 1 in stored order, and whose
  footer counts them; for \<open>["!", "<mention>", "<mention2>", "?"]\<close> these are
  \<open>1. !\<close>, \<open>2. <mention2>\<close> and \<open>3. ?\<close>.
\<close>

theorem prefix_display_omits_second:
  assumes "2 \<le> length (get_guild_prefixes this st guild)"
  shows "prefix_cmd this st guild =
     \<lparr>raised = None,
      replies = [Embed \<lparr>title = ascii ''Prefixes'', embed_colour = Some Blurple,
         footer = dec_str (length (get_guild_prefixes this st guild) - 1) @ ascii '' prefixes'',
         description = join [0x0A]
            (map (\<lambda>k. dec_str (Suc k) @ ascii ''. ''
                         @ get_guild_prefixes this st guild ! (if k = 0 then 0 else Suc k))
                 [0..<length (get_guild_prefixes this st guild) - 1])\<rparr>],
      calls = [GetGuildPrefixes guild], store = st\<rparr>"
proof -
  let ?xs = "get_guild_prefixes this st guild"
  have del: "del_index ?xs 1 = Inr (take 1 ?xs @ drop 2 ?xs)"
    using assms by (simp add: del_index_def numeral_2_eq_2)
  have len: "length (take 1 ?xs @ drop 2 ?xs) = length ?xs - 1"
    using assms by simp
  show ?thesis
    unfolding prefix_cmd_def del
    using len shown_lines [OF assms, of "\<lambda>index elem. dec_str index @ ascii ''. '' @ elem"]
    by (simp add: Let_def del: length_append)
qed

theorem prefix_display_omits_second_witness:
  "2 \<le> length (get_guild_prefixes list_bot example_prefixes 7)
   \<and> prefix_cmd list_bot example_prefixes 7 =
     \<lparr>raised = None,
      replies = [Embed \<lparr>title = ascii ''Prefixes'', embed_colour = Some Blurple,
         footer = ascii ''3 prefixes'',
         description = ascii ''1. !'' @ [0x0A] @ ascii ''2. <mention2>'' @ [0x0A] @ ascii ''3. ?''\<rparr>],
      calls = [GetGuildPrefixes 7], store = example_prefixes\<rparr>"
proof -
  have h: "2 \<le> length (get_guild_prefixes list_bot example_prefixes 7)"
    by (simp add: fixture_defs)
  have n: "length (get_guild_prefixes list_bot example_prefixes 7) - 1 = 3"
    by (simp add: fixture_defs)
  have xs: "get_guild_prefixes list_bot example_prefixes 7 = example_prefixes"
    by (simp add: list_bot_def list_get_def)
  have r: "[0..<3] = [0, Suc 0, Suc (Suc 0)]"
    by (simp add: upt_rec)
  show ?thesis
    using h prefix_display_omits_second [OF h]
    unfolding n r unfolding xs
    by (simp add: dec_str.simps example_prefixes_def ascii_def)
qed

text \<open>
  C9: when \<open>get_guild_prefixes\<close> returns fewer than 2 entries, the deletion of index 1
  raises IndexError and nothing has been sent; the command returns normally exactly when
  the list has at least 2 entries.
\<close>

theorem prefix_display_short_list:
  "(length (get_guild_prefixes this st guild) < 2 \<longrightarrow>
      prefix_cmd this st guild =
        \<lparr>raised = Some IndexError, replies = [], calls = [GetGuildPrefixes guild], store = st\<rparr>)
   \<and> (raised (prefix_cmd this st guild) = None) = (2 \<le> length (get_guild_prefixes this st guild))"
  by (auto simp add: prefix_cmd_def del_index_def Let_def)

theorem prefix_display_short_list_witness:
  "length (get_guild_prefixes list_bot [ascii ''!''] 7) < 2
   \<and> prefix_cmd list_bot [ascii ''!''] 7 =
        \<lparr>raised = Some IndexError, replies = [], calls = [GetGuildPrefixes 7],
         store = [ascii ''!'']\<rparr>
   \<and> raised (prefix_cmd list_bot [ascii ''!''] 7) \<noteq> None"
  using prefix_display_short_list [of list_bot "[ascii ''!'']" 7]
  by (simp add: fixture_defs)

section \<open>Reserved prefixes\<close>

text \<open>
  C6: an argument that begins with either mention form of the bot's own id is rejected by
  \<open>Prefix.convert\<close> with a bad-argument error; \<open>prefix add\<close> and \<open>prefix remove\<close> then
  make no call on the prefix store, leave it as it was, and the cog's error handler sends
  the error text.
\<close>

theorem reserved_prefix_rejected:
  assumes "prefix (ascii ''<@'' @ dec_str (user_id this) @ ascii ''>'') argument
         \<or> prefix (ascii ''<@!'' @ dec_str (user_id this) @ ascii ''>'') argument"
  shows "Prefix_convert (user_id this) argument
           = Inl (BadArgument (ascii ''That is a reserved prefix already in use.''))
       \<and> invoke_prefix_add this st guild argument
           = \<lparr>raised = Some (BadArgument (ascii ''That is a reserved prefix already in use.'')),
              replies = [Content (ascii ''That is a reserved prefix already in use.'')],
              calls = [], store = st\<rparr>
       \<and> invoke_prefix_remove this st guild argument
           = \<lparr>raised = Some (BadArgument (ascii ''That is a reserved prefix already in use.'')),
              replies = [Content (ascii ''That is a reserved prefix already in use.'')],
              calls = [], store = st\<rparr>"
proof -
  have conv: "Prefix_convert (user_id this) argument
           = Inl (BadArgument (ascii ''That is a reserved prefix already in use.''))"
    using assms by (auto simp add: Prefix_convert_def startswith_def)
  then show ?thesis
    by (simp add: invoke_prefix_add_def invoke_prefix_remove_def cog_command_error_def
        prefix_add_error_def)
qed

theorem reserved_prefix_rejected_witness:
  "prefix (ascii ''<@'' @ dec_str (user_id list_bot) @ ascii ''>'') (ascii ''<@42>'')
   \<and> invoke_prefix_add list_bot [ascii ''!''] 7 (ascii ''<@42>'')
       = \<lparr>raised = Some (BadArgument (ascii ''That is a reserved prefix already in use.'')),
          replies = [Content (ascii ''That is a reserved prefix already in use.'')],
          calls = [], store = [ascii ''!'']\<rparr>
   \<and> prefix (ascii ''<@!'' @ dec_str (user_id list_bot) @ ascii ''>'') (ascii ''<@!42>'')
   \<and> invoke_prefix_remove list_bot [ascii ''!''] 7 (ascii ''<@!42>'')
       = \<lparr>raised = Some (BadArgument (ascii ''That is a reserved prefix already in use.'')),
          replies = [Content (ascii ''That is a reserved prefix already in use.'')],
          calls = [], store = [ascii ''!'']\<rparr>"
proof -
  have h1: "prefix (ascii ''<@'' @ dec_str (user_id list_bot) @ ascii ''>'') (ascii ''<@42>'')"
    by (simp add: list_bot_def dec_str_42 ascii_def)
  have h2: "prefix (ascii ''<@!'' @ dec_str (user_id list_bot) @ ascii ''>'') (ascii ''<@!42>'')"
    by (simp add: list_bot_def dec_str_42 ascii_def)
  show ?thesis
    using h1 h2 reserved_prefix_rejected [of list_bot "ascii ''<@42>''" "[ascii ''!'']" 7]
      reserved_prefix_rejected [of list_bot "ascii ''<@!42>''" "[ascii ''!'']" 7]
    by simp
qed

section \<open>Prefix remove\<close>

text \<open>
  The callback of \<open>prefix remove\<close> on a prefix that is not stored: \<open>list.remove\<close>
  raises ValueError, the failure is reported, and the only call on the store is the read.
\<close>

lemma prefix_remove_callback_absent:
  assumes "p \<notin> set (get_raw_guild_prefixes this st guild)"
  shows "prefix_remove this st guild p =
     \<lparr>raised = None, replies = [Content (ascii ''I do not have this prefix registered.'')],
      calls = [GetRawGuildPrefixes guild], store = st\<rparr>"
  using assms by (simp add: prefix_remove_def list_remove_def)

text \<open>
  C7, as the specification states it, fails: the string \<open><@42>\<close> is not in the stored
  list \<open>["!"]\<close> of the bot whose id is 42, yet invoking \<open>prefix remove\<close> with it does not
  reply "I do not have this prefix registered.": the argument converter rejects it and
  the reply is "That is a reserved prefix already in use.".
\<close>

theorem prefix_remove_reserved_counterexample:
  "ascii ''<@42>'' \<notin> set (get_raw_guild_prefixes list_bot [ascii ''!''] 7)
   \<and> invoke_prefix_remove list_bot [ascii ''!''] 7 (ascii ''<@42>'') =
       \<lparr>raised = Some (BadArgument (ascii ''That is a reserved prefix already in use.'')),
        replies = [Content (ascii ''That is a reserved prefix already in use.'')],
        calls = [], store = [ascii ''!'']\<rparr>
   \<and> ascii ''That is a reserved prefix already in use.''
       \<noteq> ascii ''I do not have this prefix registered.''"
  by (simp add: invoke_prefix_remove_def Prefix_convert_def startswith_def
      cog_command_error_def fixture_defs dec_str_42)

text \<open>
  C7, amended: for every stored prefix list and every prefix string that is not present
  in it and does not begin with either mention form of the bot's own identity, invoking
  \<open>prefix remove\<close> with that string replies "I do not have this prefix registered." and
  returns without calling the external setter: its only call on the store is the read,
  and the stored list is unchanged.
\<close>

theorem prefix_remove_absent:
  assumes "p \<notin> set (get_raw_guild_prefixes this st guild)"
    and "\<not> prefix (ascii ''<@'' @ dec_str (user_id this) @ ascii ''>'') p"
    and "\<not> prefix (ascii ''<@!'' @ dec_str (user_id this) @ ascii ''>'') p"
  shows "invoke_prefix_remove this st guild p =
     \<lparr>raised = None, replies = [Content (ascii ''I do not have this prefix registered.'')],
      calls = [GetRawGuildPrefixes guild], store = st\<rparr>"
proof -
  have "Prefix_convert (user_id this) p = Inr p"
    using assms(2,3) by (simp add: Prefix_convert_def startswith_def)
  then show ?thesis
    using prefix_remove_callback_absent [OF assms(1)]
    by (simp add: invoke_prefix_remove_def)
qed

theorem prefix_remove_absent_witness:
  "ascii ''?'' \<notin> set (get_raw_guild_prefixes list_bot [ascii ''!''] 7)
   \<and> \<not> prefix (ascii ''<@'' @ dec_str (user_id list_bot) @ ascii ''>'') (ascii ''?'')
   \<and> \<not> prefix (ascii ''<@!'' @ dec_str (user_id list_bot) @ ascii ''>'') (ascii ''?'')
   \<and> invoke_prefix_remove list_bot [ascii ''!''] 7 (ascii ''?'') =
     \<lparr>raised = None, replies = [Content (ascii ''I do not have this prefix registered.'')],
      calls = [GetRawGuildPrefixes 7], store = [ascii ''!'']\<rparr>"
proof -
  have h1: "ascii ''?'' \<notin> set (get_raw_guild_prefixes list_bot [ascii ''!''] 7)"
    by (simp add: fixture_defs)
  have h2: "\<not> prefix (ascii ''<@'' @ dec_str (user_id list_bot) @ ascii ''>'') (ascii ''?'')"
    by (simp add: ascii_def)
  have h3: "\<not> prefix (ascii ''<@!'' @ dec_str (user_id list_bot) @ ascii ''>'') (ascii ''?'')"
    by (simp add: ascii_def)
  show ?thesis
    using h1 h2 h3 prefix_remove_absent [of "ascii ''?''" list_bot "[ascii ''!'']" 7]
    by simp
qed

section \<open>User not found\<close>

text \<open>
  The converter alone does what its messages say: a numeric id whose fetch reports
  not-found raises the bad-argument error "User not found.".
\<close>

lemma FetchedUser_convert_not_found:
  assumes "isdigit digit_property argument" and "fetch_user argument = Inl NotFound"
  shows "FetchedUser_convert digit_property fetch_user argument
           = Inl (BadArgument (ascii ''User not found.''))"
  using assms by (simp add: FetchedUser_convert_def)

text \<open>
  Through \<open>info\<close>, whenever the argument names no member, that error reaches the cog's
  handler wrapped in \<open>BadUnionArgument\<close>, which the handler's test for \<open>BadArgument\<close>
  does not match: the cog sends nothing.
\<close>

lemma invoke_info_not_found:
  assumes "member_convert argument = Inl exc"
    and "isdigit digit_property argument" and "fetch_user argument = Inl NotFound"
  shows "invoke_info member_convert digit_property fetch_user info argument
           = (Some (BadUnionArgument [exc, BadArgument (ascii ''User not found.'')]), [])"
  using assms FetchedUser_convert_not_found [of digit_property argument fetch_user]
  by (simp add: invoke_info_def cog_command_error_def)

text \<open>
  C8 at the failing input: \<open>info 123\<close> where 123 names no member and the fetch reports
  not-found. \<open>FetchedUser.convert\<close> raises "User not found." as the claim expects, but
  the command ends with \<open>BadUnionArgument\<close> and the cog sends no message at all, neither
  that text nor an embed.
\<close>

theorem info_not_found_sends_nothing:
  "FetchedUser_convert ascii_digit fetch_nobody (ascii ''123'')
     = Inl (BadArgument (ascii ''User not found.''))
   \<and> invoke_info no_member ascii_digit fetch_nobody no_embed (ascii ''123'')
     = (Some (BadUnionArgument
               [BadArgument (ascii ''Member '' @ [0x22] @ ascii ''123'' @ [0x22] @ ascii '' not found''),
                BadArgument (ascii ''User not found.'')]),
        [])"
proof -
  have h1: "isdigit ascii_digit (ascii ''123'')"
    by (simp add: isdigit_def ascii_digit_def ascii_def)
  have h2: "fetch_nobody (ascii ''123'') = Inl NotFound"
    by (simp add: fetch_nobody_def)
  have h3: "no_member (ascii ''123'')
      = Inl (BadArgument (ascii ''Member '' @ [0x22] @ ascii ''123'' @ [0x22] @ ascii '' not found''))"
    by (simp add: no_member_def)
  show ?thesis
    using h1 h2 h3
      FetchedUser_convert_not_found
        [where digit_property = ascii_digit and argument = "ascii ''123''"
           and fetch_user = fetch_nobody]
      invoke_info_not_found
        [where member_convert = no_member and argument = "ascii ''123''"
           and digit_property = ascii_digit and fetch_user = fetch_nobody and info = no_embed]
    by simp
qed

section \<open>charinfo has no length limit\<close>

lemma hex_digit_not_newline: "hex_digit d \<noteq> 10"
  by (simp add: hex_digit_def)

lemma hex_str_no_newline: "10 \<notin> set (hex_str n)"
proof (induction n rule: hex_str.induct)
  case (1 n)
  show ?case
  proof (cases "n < 16")
    case True
    then show ?thesis by (subst hex_str.simps) (simp add: hex_digit_not_newline)
  next
    case False
    with 1 show ?thesis by (subst hex_str.simps) (simp add: hex_digit_not_newline)
  qed
qed

lemma to_string_no_newline:
  assumes "c \<noteq> 10" and "\<forall>n. unicodedata_name c = Some n \<longrightarrow> 10 \<notin> set n"
  shows "10 \<notin> set (to_string unicodedata_name c)"
  using assms
  by (auto simp add: to_string_def Let_def rjust_def ascii_def hex_str_no_newline
      split: option.splits)

lemma count_newlines_join:
  assumes "\<forall>l \<in> set ls. 10 \<notin> set l"
  shows "count_list (join [10] ls) 10 = length ls - 1"
  using assms
proof (induction "[10::nat]" ls rule: join.induct)
  case 1
  show ?case by simp
next
  case (2 x)
  then show ?case by (simp add: count_list_0_iff)
next
  case (3 x y ys)
  then show ?case by (simp add: count_list_0_iff)
qed

text \<open>
  C10: for an input of any length, \<open>charinfo\<close> sends one message, the newline-join of one
  report line per character of the input, in order; nothing bounds the number of lines.
  Where neither the input nor a character name contains a newline, the message has
  exactly one newline fewer than the input has characters.
\<close>

theorem charinfo_every_character:
  "\<exists>ls. charinfo unicodedata_name characters = [Content (join [0x0A] ls)]
       \<and> length ls = length characters
       \<and> (\<forall>i<length characters. ls ! i = to_string unicodedata_name (characters ! i))
       \<and> (0x0A \<notin> set characters \<and> (\<forall>c n. unicodedata_name c = Some n \<longrightarrow> 0x0A \<notin> set n)
            \<longrightarrow> count_list (join [0x0A] ls) 0x0A = length characters - 1)"
proof (intro exI conjI impI allI)
  show "charinfo unicodedata_name characters
          = [Content (join [0x0A] (map (to_string unicodedata_name) characters))]"
    by (simp add: charinfo_def)
  show "length (map (to_string unicodedata_name) characters) = length characters"
    by simp
  show "map (to_string unicodedata_name) characters ! i = to_string unicodedata_name (characters ! i)"
    if "i < length characters" for i
    using that by simp
  show "count_list (join [0x0A] (map (to_string unicodedata_name) characters)) 0x0A
          = length characters - 1"
    if h: "0x0A \<notin> set characters \<and> (\<forall>c n. unicodedata_name c = Some n \<longrightarrow> 0x0A \<notin> set n)"
  proof -
    have "\<forall>l \<in> set (map (to_string unicodedata_name) characters). 10 \<notin> set l"
    proof
      fix l
      assume "l \<in> set (map (to_string unicodedata_name) characters)"
      then obtain c where c: "c \<in> set characters" and l: "l = to_string unicodedata_name c"
        by auto
      from c h have "c \<noteq> 10" by auto
      moreover from h have "\<forall>n. unicodedata_name c = Some n \<longrightarrow> 10 \<notin> set n" by simp
      ultimately show "10 \<notin> set l" unfolding l by (rule to_string_no_newline)
    qed
    then show ?thesis using count_newlines_join by fastforce
  qed
qed

theorem charinfo_every_character_witness:
  "length long_input = 26
   \<and> 0x0A \<notin> set long_input
   \<and> (\<exists>ls. charinfo name_of_A long_input = [Content (join [0x0A] ls)]
            \<and> length ls = 26
            \<and> ls ! 25 = to_string name_of_A (long_input ! 25)
            \<and> count_list (join [0x0A] ls) 0x0A = 25)"
proof -
  have len: "length long_input = 26"
    by (simp add: long_input_def ascii_def)
  have h1: "0x0A \<notin> set long_input"
    by (simp add: long_input_def ascii_def)
  have h2: "\<forall>c n. name_of_A c = Some n \<longrightarrow> 0x0A \<notin> set n"
    by (simp add: name_of_A_def ascii_def)
  from charinfo_every_character [of name_of_A long_input]
  obtain ls where ls: "charinfo name_of_A long_input = [Content (join [0x0A] ls)]"
      "length ls = length long_input"
      "\<forall>i<length long_input. ls ! i = to_string name_of_A (long_input ! i)"
      "0x0A \<notin> set long_input \<and> (\<forall>c n. name_of_A c = Some n \<longrightarrow> 0x0A \<notin> set n)
         \<longrightarrow> count_list (join [0x0A] ls) 0x0A = length long_input - 1"
    by blast
  from ls(3) len have "ls ! 25 = to_string name_of_A (long_input ! 25)" by simp
  moreover from ls(4) h1 h2 len have "count_list (join [0x0A] ls) 0x0A = 25" by simp
  ultimately show ?thesis using len h1 ls(1) ls(2) by auto
qed

end
